theory Spec2Isabelle
  imports Main "HOL-Library.Sublist" "HOL-Library.Option_ord"
begin

section \<open>Python strings\<close>

text \<open>
  A Python \<open>str\<close> is modelled as a \<open>string\<close>, a list of characters that are the
  code points below 256. The string methods the program calls are written out on that
  range: \<open>str.isspace\<close> (and \<open>\s\<close> of \<open>re\<close>) holds of the codes 9 to 13, 28 to 32,
  133 and 160; \<open>str.lower\<close> maps \<open>A\<close> to \<open>Z\<close> and the capital letters 192 to 222
  (but the sign 215) to the letter 32 places on. Code points from 256 on are not
  represented.
\<close>

definition is_space :: "char \<Rightarrow> bool" where
  "is_space c =
     (let n = (of_char c :: nat)
      in (9 \<le> n \<and> n \<le> 13) \<or> (28 \<le> n \<and> n \<le> 32) \<or> n = 133 \<or> n = 160)"

definition is_digit :: "char \<Rightarrow> bool" where
  "is_digit c = (let n = (of_char c :: nat) in 48 \<le> n \<and> n \<le> 57)"

definition digit_val :: "char \<Rightarrow> nat" where
  "digit_val c = (of_char c :: nat) - 48"

definition lower_char :: "char \<Rightarrow> char" where
  "lower_char c =
     (let n = (of_char c :: nat)
      in if (65 \<le> n \<and> n \<le> 90) \<or> (192 \<le> n \<and> n \<le> 222 \<and> n \<noteq> 215)
         then char_of (n + 32) else c)"

definition lower :: "string \<Rightarrow> string" where
  "lower s = map lower_char s"

text \<open>\<open>s.strip()\<close>: leading and trailing whitespace removed.\<close>

definition strip :: "string \<Rightarrow> string" where
  "strip s = rev (dropWhile is_space (rev (dropWhile is_space s)))"

text \<open>\<open>s.startswith(p)\<close> is \<^const>\<open>prefix\<close>, and \<open>p in s\<close> on strings is \<^const>\<open>sublist\<close>.\<close>

definition startswith :: "string \<Rightarrow> string \<Rightarrow> bool" where
  "startswith s p = prefix p s"

definition contains :: "string \<Rightarrow> string \<Rightarrow> bool" where
  "contains s p = sublist p s"

text \<open>
  \<open>s.replace(old, rep)\<close>: every occurrence of \<open>old\<close>, found from the left and not
  overlapping, is replaced by \<open>rep\<close>. With an empty \<open>old\<close> Python puts \<open>rep\<close> before every
  character and at the end.
\<close>

function replace :: "string \<Rightarrow> string \<Rightarrow> string \<Rightarrow> string" where
  "replace old rep s =
     (if old = [] then rep @ concat (map (\<lambda>c. c # rep) s)
      else if s = [] then []
      else if prefix old s then rep @ replace old rep (drop (length old) s)
      else hd s # replace old rep (tl s))"
  by pat_completeness auto
termination
  by (relation "measure (\<lambda>(old, rep, s). length s)") (auto simp: neq_Nil_conv)

text \<open>\<open>re.sub(r'\s+', ' ', s)\<close>: every maximal run of whitespace becomes one space.\<close>

function collapse_ws :: "string \<Rightarrow> string" where
  "collapse_ws [] = []"
| "collapse_ws (c # cs) =
     (if is_space c then CHR '' '' # collapse_ws (dropWhile is_space cs)
      else c # collapse_ws cs)"
  by pat_completeness auto
termination
  by (relation "measure length") (auto simp: length_dropWhile_le less_Suc_eq_le)

section \<open>Naive datetimes\<close>

text \<open>
  A \<open>datetime\<close> without time zone, with the fields of Python's class. The calendar
  arithmetic follows \<open>datetime.py\<close>: the proleptic Gregorian ordinal of a date, and the
  difference of two datetimes as a \<open>timedelta\<close>, whose \<open>days\<close> attribute is the floor
  of the difference in whole days.
\<close>

record datetime =
  year :: nat
  month :: nat
  day :: nat
  hour :: nat
  minute :: nat
  second :: nat
  microsecond :: nat

definition is_leap :: "nat \<Rightarrow> bool" where
  "is_leap y = (y mod 4 = 0 \<and> (y mod 100 \<noteq> 0 \<or> y mod 400 = 0))"


definition days_in_month :: "nat \<Rightarrow> nat \<Rightarrow> nat" where
  "days_in_month y m =
     (if m = 2 \<and> is_leap y then 29
      else [0, 31, 28, 31, 30, 31, 30, 31, 31, 30, 31, 30, 31] ! m)"






text \<open>
  The constructor \<open>datetime(y, m, d, H, M)\<close> raises \<open>ValueError\<close> outside the ranges
  below; the failure is the value \<open>None\<close>.
\<close>

definition mk_datetime :: "nat \<Rightarrow> nat \<Rightarrow> nat \<Rightarrow> nat \<Rightarrow> nat \<Rightarrow> datetime option" where
  "mk_datetime y m d H M =
     (if 1 \<le> y \<and> y \<le> 9999 \<and> 1 \<le> m \<and> m \<le> 12 \<and> 1 \<le> d \<and> d \<le> days_in_month y m
         \<and> H \<le> 23 \<and> M \<le> 59
      then Some \<lparr>year = y, month = m, day = d, hour = H, minute = M, second = 0, microsecond = 0\<rparr>
      else None)"

section \<open>The fixed format of \<open>strptime\<close>\<close>

text \<open>
  \<open>datetime.strptime(s, "%A, %d %B %Y, %I:%M %p")\<close> compiles the format to the regular
  expression
  \<^verbatim>\<open>(?P<A>...),\s+(?P<d>3[0-1]|[1-2]\d|0[1-9]|[1-9]| [1-9])\s+(?P<B>...)\s+(?P<Y>\d\d\d\d),\s+(?P<I>1[0-2]|0[1-9]|[1-9]):(?P<M>[0-5]\d|\d)\s+(?P<p>am|pm)\<close>
  (CPython's \<open>_strptime.py\<close>, English names, case ignored), matches it at the start of
  the string, and raises \<open>ValueError\<close> when nothing matches, when text remains after
  the match, or when the fields are no date. A matcher returns every way to match, in
  the order a backtracking engine tries them, with the text left over; the first
  complete way is the match.
\<close>

type_synonym 'a rx = "string \<Rightarrow> ('a \<times> string) list"

definition rx_then :: "'a rx \<Rightarrow> ('a \<Rightarrow> 'b rx) \<Rightarrow> 'b rx" where
  "rx_then p f s = concat (map (\<lambda>(a, r). f a r) (p s))"

definition rx_lit :: "string \<Rightarrow> unit rx" where
  "rx_lit l s = (if prefix l (lower s) then [((), drop (length l) s)] else [])"

text \<open>\<open>\s+\<close> is greedy: the longest run first, then shorter ones down to one character.\<close>

definition rx_spaces :: "unit rx" where
  "rx_spaces s = map (\<lambda>k. ((), drop k s)) (rev [1 ..< Suc (length (takeWhile is_space s))])"

text \<open>
  An alternation of names; the value is the index the name has in the locale's list
  (counted from \<open>base\<close>). The engine tries longer names first.
\<close>

definition rx_names :: "nat \<Rightarrow> string list \<Rightarrow> nat rx" where
  "rx_names base names s =
     concat (map (\<lambda>(i, n). if prefix n (lower s) then [(base + i, drop (length n) s)] else [])
       (sort_key (\<lambda>(i, n). - int (length n)) (enumerate 0 names)))"

definition weekday_names :: "string list" where
  "weekday_names = [''monday'', ''tuesday'', ''wednesday'', ''thursday'', ''friday'',
     ''saturday'', ''sunday'']"

definition month_names :: "string list" where
  "month_names = [''january'', ''february'', ''march'', ''april'', ''may'', ''june'', ''july'',
     ''august'', ''september'', ''october'', ''november'', ''december'']"

definition in_range :: "char \<Rightarrow> nat \<Rightarrow> nat \<Rightarrow> bool" where
  "in_range c lo hi = (is_digit c \<and> lo \<le> digit_val c \<and> digit_val c \<le> hi)"

text \<open>\<open>3[0-1]|[1-2]\d|0[1-9]|[1-9]| [1-9]\<close>\<close>

definition rx_d :: "nat rx" where
  "rx_d s =
     (case s of
        a # b # r \<Rightarrow>
          (if a = CHR ''3'' \<and> in_range b 0 1 then [(30 + digit_val b, r)] else []) @
          (if in_range a 1 2 \<and> is_digit b then [(10 * digit_val a + digit_val b, r)] else []) @
          (if a = CHR ''0'' \<and> in_range b 1 9 then [(digit_val b, r)] else []) @
          (if in_range a 1 9 then [(digit_val a, b # r)] else []) @
          (if a = CHR '' '' \<and> in_range b 1 9 then [(digit_val b, r)] else [])
      | [a] \<Rightarrow> (if in_range a 1 9 then [(digit_val a, [])] else [])
      | [] \<Rightarrow> [])"

text \<open>\<open>\d\d\d\d\<close>\<close>

definition rx_Y :: "nat rx" where
  "rx_Y s =
     (case s of
        a # b # c # d # r \<Rightarrow>
          (if is_digit a \<and> is_digit b \<and> is_digit c \<and> is_digit d
           then [(1000 * digit_val a + 100 * digit_val b + 10 * digit_val c + digit_val d, r)]
           else [])
      | _ \<Rightarrow> [])"

text \<open>\<open>1[0-2]|0[1-9]|[1-9]\<close>\<close>

definition rx_I :: "nat rx" where
  "rx_I s =
     (case s of
        a # b # r \<Rightarrow>
          (if a = CHR ''1'' \<and> in_range b 0 2 then [(10 + digit_val b, r)] else []) @
          (if a = CHR ''0'' \<and> in_range b 1 9 then [(digit_val b, r)] else []) @
          (if in_range a 1 9 then [(digit_val a, b # r)] else [])
      | [a] \<Rightarrow> (if in_range a 1 9 then [(digit_val a, [])] else [])
      | [] \<Rightarrow> [])"

text \<open>\<open>[0-5]\d|\d\<close>\<close>

definition rx_M :: "nat rx" where
  "rx_M s =
     (case s of
        a # b # r \<Rightarrow>
          (if in_range a 0 5 \<and> is_digit b then [(10 * digit_val a + digit_val b, r)] else []) @
          (if is_digit a then [(digit_val a, b # r)] else [])
      | [a] \<Rightarrow> (if is_digit a then [(digit_val a, [])] else [])
      | [] \<Rightarrow> [])"

text \<open>
  The hour of a 12-hour clock: 12 AM is hour 0, and PM adds 12 to every hour but 12
  (index 0 of \<open>am_pm\<close> is AM, 1 is PM).
\<close>

definition hour_of :: "nat \<Rightarrow> nat \<Rightarrow> nat" where
  "hour_of h p = (if p = 0 then (if h = 12 then 0 else h) else (if h \<noteq> 12 then h + 12 else h))"

definition strptime_matches :: "(nat \<times> nat \<times> nat \<times> nat \<times> nat \<times> nat \<times> nat) rx" where
  "strptime_matches =
     rx_then (rx_names 0 weekday_names) (\<lambda>A.
     rx_then (rx_lit '','') (\<lambda>_. rx_then rx_spaces (\<lambda>_.
     rx_then rx_d (\<lambda>d. rx_then rx_spaces (\<lambda>_.
     rx_then (rx_names 1 month_names) (\<lambda>B. rx_then rx_spaces (\<lambda>_.
     rx_then rx_Y (\<lambda>Y. rx_then (rx_lit '','') (\<lambda>_. rx_then rx_spaces (\<lambda>_.
     rx_then rx_I (\<lambda>I. rx_then (rx_lit '':'') (\<lambda>_.
     rx_then rx_M (\<lambda>M. rx_then rx_spaces (\<lambda>_.
     rx_then (rx_names 0 [''am'', ''pm'']) (\<lambda>p r. [((A, d, B, Y, I, M, p), r)])))))))))))))))"

text \<open>
  The weekday that was read is not compared with the date: \<open>strptime\<close> computes the
  weekday of the result from year, month and day.
\<close>

definition strptime :: "string \<Rightarrow> datetime option" where
  "strptime s =
     (case strptime_matches s of
        [] \<Rightarrow> None
      | ((A, d, B, Y, I, M, p), r) # _ \<Rightarrow>
          if r = [] then mk_datetime Y B d (hour_of I p) M else None)"

section \<open>Parsing a due date\<close>

text \<open>
  \<open>AssignmentStorage.parse_due_date\<close>. The optional module \<open>dateparser\<close> is a
  parameter: \<open>None\<close> when the import failed, otherwise its function \<open>parse\<close>. Both
  \<open>try\<close> blocks of the fallback use the same format; an exception in either is caught
  and the next step is taken.
\<close>

definition parse_due_date :: "(string \<Rightarrow> datetime option) option \<Rightarrow> string \<Rightarrow> datetime option" where
  "parse_due_date dateparser due_date_raw =
     (if due_date_raw = [] \<or> due_date_raw = ''No due date found'' then None
      else
        let cleaned = strip (replace ''Due:'' [] due_date_raw);
            first = (case dateparser of None \<Rightarrow> None | Some parse \<Rightarrow> parse cleaned)
        in case first of
             Some parsed_date \<Rightarrow> Some parsed_date
           | None \<Rightarrow>
               (case strptime cleaned of
                  Some parsed_date \<Rightarrow> Some parsed_date
                | None \<Rightarrow>
                    (case strptime cleaned of
                       Some parsed_date \<Rightarrow> Some parsed_date
                     | None \<Rightarrow> None)))"

section \<open>The assignment store\<close>

text \<open>
  The table \<open>assignments\<close> of \<open>init_database\<close>, as the list of its rows in insertion
  order. A \<open>TIMESTAMP\<close> column holds a naive datetime: the text SQLite stores is the ISO
  form, whose order as text is the order in time, and \<open>datetime.fromisoformat\<close> reads
  back the datetime that was written.
\<close>

record row =
  row_id :: nat
  course_url :: string
  assignment_name :: string
  due_date_raw :: string
  due_date_parsed :: "datetime option"
  extracted_at :: datetime
  notified :: bool

type_synonym db = "row list"

datatype error = IntegrityError

text \<open>\<open>WHERE course_url = ? AND assignment_name = ?\<close>\<close>

definition matches :: "string \<Rightarrow> string \<Rightarrow> row \<Rightarrow> bool" where
  "matches url name r = (course_url r = url \<and> assignment_name r = name)"

text \<open>\<open>UNIQUE(course_url, assignment_name)\<close>\<close>

definition row_key :: "row \<Rightarrow> string \<times> string" where
  "row_key r = (course_url r, assignment_name r)"

definition unique_keys :: "db \<Rightarrow> bool" where
  "unique_keys db = distinct (map row_key db)"

text \<open>\<open>SELECT id ... WHERE ...\<close> followed by \<open>fetchone()\<close>: a matching row, or \<open>None\<close>.\<close>

definition select_existing :: "string \<Rightarrow> string \<Rightarrow> db \<Rightarrow> row option" where
  "select_existing url name db = find (matches url name) db"

text \<open>
  \<open>AUTOINCREMENT\<close>: one more than the largest id ever used; no row is ever deleted, so
  that is the largest id in the table.
\<close>

definition next_id :: "db \<Rightarrow> nat" where
  "next_id db = Suc (fold max (map row_id db) 0)"

text \<open>
  \<open>INSERT\<close>: \<open>extracted_at\<close> and \<open>notified\<close> take their defaults (\<open>ts\<close> is the reading
  of \<open>CURRENT_TIMESTAMP\<close>). The statement raises \<open>sqlite3.IntegrityError\<close> when the
  pair is already in the table.
\<close>

definition fresh_row ::
  "datetime \<Rightarrow> string \<Rightarrow> string \<Rightarrow> string \<Rightarrow> datetime option \<Rightarrow> db \<Rightarrow> row" where
  "fresh_row ts url name raw parsed db =
     \<lparr>row_id = next_id db, course_url = url, assignment_name = name,
      due_date_raw = raw, due_date_parsed = parsed, extracted_at = ts, notified = False\<rparr>"

definition sql_insert ::
  "datetime \<Rightarrow> string \<Rightarrow> string \<Rightarrow> string \<Rightarrow> datetime option \<Rightarrow> db \<Rightarrow> error + db" where
  "sql_insert ts url name raw parsed db =
     (if find (matches url name) db \<noteq> None then Inl IntegrityError
      else Inr (db @ [fresh_row ts url name raw parsed db]))"

text \<open>\<open>UPDATE ... SET due_date_raw = ?, due_date_parsed = ?, extracted_at = CURRENT_TIMESTAMP WHERE ...\<close>\<close>

definition sql_update ::
  "datetime \<Rightarrow> string \<Rightarrow> string \<Rightarrow> string \<Rightarrow> datetime option \<Rightarrow> db \<Rightarrow> db" where
  "sql_update ts url name raw parsed db =
     map (\<lambda>r. if matches url name r
              then r\<lparr>due_date_raw := raw, due_date_parsed := parsed, extracted_at := ts\<rparr>
              else r) db"

text \<open>A candidate is a dict from strings to strings; \<open>d.get(k, default)\<close>.\<close>

type_synonym assignment = "(string \<times> string) list"

definition dict_get :: "assignment \<Rightarrow> string \<Rightarrow> string \<Rightarrow> string" where
  "dict_get d k dflt = (case map_of d k of None \<Rightarrow> dflt | Some v \<Rightarrow> v)"

record stats =
  new :: nat
  updated :: nat
  total :: nat

text \<open>
  The body of the loop of \<open>store_assignments\<close>, for one candidate. \<open>ts\<close> is the
  reading of \<open>CURRENT_TIMESTAMP\<close> during the call.
\<close>

definition candidate_title :: "assignment \<Rightarrow> string" where
  "candidate_title a = replace ''Title: '' [] (dict_get a ''title'' [])"

definition candidate_due :: "assignment \<Rightarrow> string" where
  "candidate_due a = dict_get a ''due_date'' ''No due date found''"

definition store_one ::
  "(string \<Rightarrow> datetime option) option \<Rightarrow> datetime \<Rightarrow> string \<Rightarrow> stats \<times> db \<Rightarrow> assignment
     \<Rightarrow> error + (stats \<times> db)" where
  "store_one dateparser ts url acc a =
     (let st = fst acc; db = snd acc;
          title = candidate_title a;
          raw = candidate_due a;
          parsed = parse_due_date dateparser raw
      in case select_existing url title db of
           Some existing \<Rightarrow>
             Inr (st\<lparr>updated := updated st + 1, total := total st + 1\<rparr>,
                  sql_update ts url title raw parsed db)
         | None \<Rightarrow>
             (case sql_insert ts url title raw parsed db of
                Inl e \<Rightarrow> Inl e
              | Inr db' \<Rightarrow> Inr (st\<lparr>new := new st + 1, total := total st + 1\<rparr>, db')))"

fun store_loop ::
  "(string \<Rightarrow> datetime option) option \<Rightarrow> datetime \<Rightarrow> string \<Rightarrow> assignment list \<Rightarrow> stats \<times> db
     \<Rightarrow> error + (stats \<times> db)" where
  "store_loop dateparser ts url [] acc = Inr acc"
| "store_loop dateparser ts url (a # rest) acc =
     (case store_one dateparser ts url acc a of
        Inl e \<Rightarrow> Inl e
      | Inr acc' \<Rightarrow> store_loop dateparser ts url rest acc')"

definition store_assignments ::
  "(string \<Rightarrow> datetime option) option \<Rightarrow> datetime \<Rightarrow> string \<Rightarrow> assignment list \<Rightarrow> db
     \<Rightarrow> error + (stats \<times> db)" where
  "store_assignments dateparser ts url assignments db =
     store_loop dateparser ts url assignments (\<lparr>new = 0, updated = 0, total = 0\<rparr>, db)"



text \<open>\<open>mark_as_notified\<close>: \<open>UPDATE ... SET notified = TRUE WHERE ...\<close>\<close>

definition mark_as_notified :: "string \<Rightarrow> string \<Rightarrow> db \<Rightarrow> db" where
  "mark_as_notified url name db =
     map (\<lambda>r. if matches url name r then r\<lparr>notified := True\<rparr> else r) db"

text \<open>
  The title as the specification words it, for comparison with \<open>candidate_title\<close>:
  the candidate title with the literal prefix \<open>"Title: "\<close> removed.
\<close>

definition title_without_prefix :: "string \<Rightarrow> string" where
  "title_without_prefix t = (if prefix ''Title: '' t then drop (length ''Title: '') t else t)"


text \<open>
  The states the store can be in: the empty table \<open>init_database\<close> creates, and what
  \<open>store_assignments\<close> and \<open>mark_as_notified\<close> make of a state.
\<close>

inductive reachable :: "db \<Rightarrow> bool" where
  init: "reachable []"
| store: "reachable db \<Longrightarrow> store_assignments dateparser ts url cands db = Inr (st, db')
          \<Longrightarrow> reachable db'"
| mark: "reachable db \<Longrightarrow> reachable (mark_as_notified url name db)"

section \<open>The deadline scan\<close>






section \<open>Duplicate titles and the fallback extraction\<close>

text \<open>The two local functions of \<open>scrape_assignments\<close>.\<close>

definition normalize_title :: "string \<Rightarrow> string" where
  "normalize_title title = collapse_ws (lower (strip title))"

definition is_duplicate_title :: "string \<Rightarrow> string set \<Rightarrow> bool" where
  "is_duplicate_title title found_set =
     (\<exists>existing \<in> found_set.
        let normalized = normalize_title title;
            existing_normalized = normalize_title existing
        in normalized = existing_normalized
           \<or> contains existing_normalized normalized
           \<or> contains normalized existing_normalized)"

text \<open>
  Method 2 of \<open>scrape_assignments\<close>, over the texts of the elements in document order.
  The state is the buffered title, the set of titles found and the candidates so far.
\<close>

record scan_state =
  current_assignment :: "string option"
  assignments_found :: "string set"
  assignments :: "assignment list"

definition fallback_step :: "string \<Rightarrow> scan_state \<Rightarrow> scan_state" where
  "fallback_step elem_text st =
     (let text = strip elem_text in
      if text = [] then st
      else if contains text ''Assignment'' \<and> length text < 100 then
        (if \<not> list_ex (contains text) [''Due:'', ''Opened:'', ''Closed:'']
         then st\<lparr>current_assignment := Some text\<rparr>
         else st)
      else
        (case current_assignment st of
           None \<Rightarrow> st
         | Some cur \<Rightarrow>
             if startswith text ''Due:'' \<and> cur \<noteq> [] then
               (if \<not> is_duplicate_title cur (assignments_found st)
                then st\<lparr>current_assignment := None,
                        assignments_found := insert cur (assignments_found st),
                        assignments := assignments st @ [[(''title'', cur), (''due_date'', text)]]\<rparr>
                else st\<lparr>current_assignment := None\<rparr>)
             else st))"

definition fallback_method :: "string list \<Rightarrow> string set \<Rightarrow> assignment list \<Rightarrow> scan_state" where
  "fallback_method texts found cands =
     (let st = \<lparr>current_assignment = None, assignments_found = found, assignments = cands\<rparr>
      in if found = {} then fold fallback_step texts st else st)"

section \<open>Example data\<close>

text \<open>Concrete rows and clock readings on which the theorems below are run.\<close>

definition ex_due :: datetime where
  "ex_due = \<lparr>year = 2025, month = 8, day = 19, hour = 0, minute = 0, second = 0, microsecond = 0\<rparr>"

definition ex_ts :: datetime where
  "ex_ts = \<lparr>year = 2025, month = 8, day = 1, hour = 12, minute = 0, second = 0, microsecond = 0\<rparr>"

definition ex_row :: row where
  "ex_row = \<lparr>row_id = 1, course_url = ''c1'', assignment_name = ''Assignment 1'',
              due_date_raw = ''Due: Tuesday, 19 August 2025, 12:00 AM'',
              due_date_parsed = Some ex_due, extracted_at = ex_ts, notified = False\<rparr>"

definition ex_other :: row where
  "ex_other = \<lparr>row_id = 2, course_url = ''c1'', assignment_name = ''Assignment 2'',
                due_date_raw = ''No due date found'',
                due_date_parsed = None, extracted_at = ex_ts, notified = False\<rparr>"

definition ex_ts2 :: datetime where
  "ex_ts2 = \<lparr>year = 2025, month = 8, day = 2, hour = 9, minute = 30, second = 0, microsecond = 0\<rparr>"

definition ex_cand :: assignment where
  "ex_cand = [(''title'', ''Title: Assignment 1''),
              (''due_date'', ''Due: Tuesday, 19 August 2025, 12:00 AM'')]"

definition ex_cand_re :: assignment where
  "ex_cand_re = [(''title'', ''Assignment 1'')]"

definition ex_cand_mid :: assignment where
  "ex_cand_mid = [(''title'', ''Week 1 Title: Assignment'')]"

definition ex_row_re :: row where
  "ex_row_re = ex_row\<lparr>due_date_raw := ''No due date found'', due_date_parsed := None,
                        extracted_at := ex_ts2\<rparr>"

definition ex_row_mid :: row where
  "ex_row_mid = \<lparr>row_id = 1, course_url = ''c1'', assignment_name = ''Week 1 Assignment'',
                  due_date_raw = ''No due date found'', due_date_parsed = None,
                  extracted_at = ex_ts, notified = False\<rparr>"

definition stats0 :: stats where
  "stats0 = \<lparr>new = 0, updated = 0, total = 0\<rparr>"










section \<open>Due-date parsing on the documented format\<close>

lemma clean_example:
  "strip (replace ''Due:'' [] ''Due: Tuesday, 19 August 2025, 12:00 AM'')
   = ''Tuesday, 19 August 2025, 12:00 AM''"
  by code_simp

lemma m_A: "rx_names 0 weekday_names ''Tuesday, 19 August 2025, 12:00 AM'' = [(1, '', 19 August 2025, 12:00 AM'')]"
  by code_simp

lemma m_c1: "rx_lit '','' '', 19 August 2025, 12:00 AM'' = [((), '' 19 August 2025, 12:00 AM'')]"
  by code_simp

lemma m_s1: "rx_spaces '' 19 August 2025, 12:00 AM'' = [((), ''19 August 2025, 12:00 AM'')]"
  by code_simp

lemma m_d: "rx_d ''19 August 2025, 12:00 AM'' = [(19, '' August 2025, 12:00 AM''), (1, ''9 August 2025, 12:00 AM'')]"
  by code_simp

lemma m_s2: "rx_spaces '' August 2025, 12:00 AM'' = [((), ''August 2025, 12:00 AM'')]"
  by code_simp

lemma m_s2': "rx_spaces ''9 August 2025, 12:00 AM'' = []"
  by code_simp

lemma m_B: "rx_names 1 month_names ''August 2025, 12:00 AM'' = [(8, '' 2025, 12:00 AM'')]"
  by code_simp

lemma m_s3: "rx_spaces '' 2025, 12:00 AM'' = [((), ''2025, 12:00 AM'')]"
  by code_simp

lemma m_Y: "rx_Y ''2025, 12:00 AM'' = [(2025, '', 12:00 AM'')]"
  by code_simp

lemma m_c2: "rx_lit '','' '', 12:00 AM'' = [((), '' 12:00 AM'')]"
  by code_simp

lemma m_s4: "rx_spaces '' 12:00 AM'' = [((), ''12:00 AM'')]"
  by code_simp

lemma m_I: "rx_I ''12:00 AM'' = [(12, '':00 AM''), (1, ''2:00 AM'')]"
  by code_simp

lemma m_k: "rx_lit '':'' '':00 AM'' = [((), ''00 AM'')]"
  by code_simp

lemma m_k': "rx_lit '':'' ''2:00 AM'' = []"
  by code_simp

lemma m_M: "rx_M ''00 AM'' = [(0, '' AM''), (0, ''0 AM'')]"
  by code_simp

lemma m_s5: "rx_spaces '' AM'' = [((), ''AM'')]"
  by code_simp

lemma m_s5': "rx_spaces ''0 AM'' = []"
  by code_simp

lemma m_p: "rx_names 0 [''am'', ''pm''] ''AM'' = [(0, [])]"
  by code_simp

lemma matches_example:
  "strptime_matches ''Tuesday, 19 August 2025, 12:00 AM'' = [((1, 19, 8, 2025, 12, 0, 0), [])]"
  unfolding strptime_matches_def rx_then_def
  by (simp only: m_A m_c1 m_s1 m_d m_s2 m_s2' m_B m_s3 m_Y m_c2 m_s4 m_I m_k m_k' m_M m_s5 m_s5' m_p
        list.map concat.simps append.simps append_Nil2 prod.case)

lemma mk_example: "mk_datetime 2025 8 19 (hour_of 12 0) 0 = Some ex_due"
  by code_simp

lemma strptime_example: "strptime ''Tuesday, 19 August 2025, 12:00 AM'' = Some ex_due"
  unfolding strptime_def by (simp add: matches_example mk_example)

lemma parse_due_date_sentinel:
  "parse_due_date dateparser ''No due date found'' = None" "parse_due_date dateparser [] = None"
  by (simp_all add: parse_due_date_def)

lemma parse_due_date_cleaned:
  "parse_due_date dateparser ''Due: Tuesday, 19 August 2025, 12:00 AM''
   = (case (case dateparser of None \<Rightarrow> None
            | Some parse \<Rightarrow> parse ''Tuesday, 19 August 2025, 12:00 AM'') of
        Some parsed_date \<Rightarrow> Some parsed_date
      | None \<Rightarrow> Some ex_due)"
  unfolding parse_due_date_def Let_def clean_example strptime_example
  by (simp split: option.splits)




section \<open>Duplicate titles\<close>

text \<open>
  Claim C7. When the normalised form of \<open>T1\<close> is a substring of the normalised form of
  \<open>T2\<close>, each title is a duplicate of the other, whichever was seen first.
\<close>

theorem is_duplicate_title_both_orders:
  "contains (normalize_title T2) (normalize_title T1)
   \<Longrightarrow> is_duplicate_title T2 {T1} \<and> is_duplicate_title T1 {T2}"
  unfolding is_duplicate_title_def Let_def by blast

lemma normalize_examples:
  "normalize_title ''  LAB   1 Extended '' = ''lab 1 extended''"
  "normalize_title ''Lab 1'' = ''lab 1''"
  by code_simp+

lemma contains_example: "contains ''lab 1 extended'' ''lab 1''"
  by code_simp

theorem is_duplicate_title_both_orders_witness:
  "normalize_title ''Lab 1'' = ''lab 1''
   \<and> normalize_title ''  LAB   1 Extended '' = ''lab 1 extended''
   \<and> contains (normalize_title ''  LAB   1 Extended '') (normalize_title ''Lab 1'')
   \<and> is_duplicate_title ''  LAB   1 Extended '' {''Lab 1''}
   \<and> is_duplicate_title ''Lab 1'' {''  LAB   1 Extended ''}"
proof -
  have h: "contains (normalize_title ''  LAB   1 Extended '') (normalize_title ''Lab 1'')"
    unfolding normalize_examples by (rule contains_example)
  from is_duplicate_title_both_orders [OF h] h show ?thesis
    by (simp add: normalize_examples)
qed

section \<open>The fallback extraction on the documented sequence\<close>

lemma strip_examples:
  "strip ''Assignment: Essay 1'' = ''Assignment: Essay 1''"
  "strip ''Due: Friday, 1 September 2025, 11:59 PM'' = ''Due: Friday, 1 September 2025, 11:59 PM''"
  "strip ''Lecture Notes Week 1'' = ''Lecture Notes Week 1''"
  by code_simp+

lemma contains_examples:
  "contains ''Assignment: Essay 1'' ''Assignment''"
  "\<not> contains ''Assignment: Essay 1'' ''Due:''"
  "\<not> contains ''Assignment: Essay 1'' ''Opened:''"
  "\<not> contains ''Assignment: Essay 1'' ''Closed:''"
  "\<not> contains ''Due: Friday, 1 September 2025, 11:59 PM'' ''Assignment''"
  "startswith ''Due: Friday, 1 September 2025, 11:59 PM'' ''Due:''"
  "\<not> contains ''Lecture Notes Week 1'' ''Assignment''"
  by code_simp+

lemma not_duplicate_empty: "\<not> is_duplicate_title title {}"
  by (simp add: is_duplicate_title_def)

lemma fallback_step_title:
  "fallback_step ''Assignment: Essay 1''
     \<lparr>current_assignment = None, assignments_found = {}, assignments = []\<rparr>
   = \<lparr>current_assignment = Some ''Assignment: Essay 1'', assignments_found = {}, assignments = []\<rparr>"
  unfolding fallback_step_def Let_def by (simp add: strip_examples contains_examples)

lemma fallback_step_due:
  "fallback_step ''Due: Friday, 1 September 2025, 11:59 PM''
     \<lparr>current_assignment = Some ''Assignment: Essay 1'', assignments_found = {}, assignments = []\<rparr>
   = \<lparr>current_assignment = None, assignments_found = {''Assignment: Essay 1''},
       assignments = [[(''title'', ''Assignment: Essay 1''),
                       (''due_date'', ''Due: Friday, 1 September 2025, 11:59 PM'')]]\<rparr>"
  unfolding fallback_step_def Let_def
  by (simp add: strip_examples contains_examples not_duplicate_empty)

lemma fallback_step_other:
  "fallback_step ''Lecture Notes Week 1''
     \<lparr>current_assignment = None, assignments_found = F, assignments = A\<rparr>
   = \<lparr>current_assignment = None, assignments_found = F, assignments = A\<rparr>"
  unfolding fallback_step_def Let_def by (simp add: strip_examples contains_examples)

text \<open>
  Claim C9. On the texts \<open>"Assignment: Essay 1"\<close>, \<open>"Due: Friday, 1 September 2025,
  11:59 PM"\<close>, \<open>"Lecture Notes Week 1"\<close>, with no title found before, the fallback loop
  produces exactly one candidate: that title with that due date.
\<close>

theorem fallback_method_example:
  "assignments (fallback_method
     [''Assignment: Essay 1'', ''Due: Friday, 1 September 2025, 11:59 PM'', ''Lecture Notes Week 1'']
     {} [])
   = [[(''title'', ''Assignment: Essay 1''),
       (''due_date'', ''Due: Friday, 1 September 2025, 11:59 PM'')]]"
  unfolding fallback_method_def Let_def
  by (simp add: fallback_step_title fallback_step_due fallback_step_other)

section \<open>Marking as notified\<close>

lemma matches_mark: "matches url name (r\<lparr>notified := True\<rparr>) = matches url name r"
  by (simp add: matches_def)

lemma mark_as_notified_twice:
  "mark_as_notified url name (mark_as_notified url name db) = mark_as_notified url name db"
  unfolding mark_as_notified_def by (induction db) (simp_all add: matches_def)

lemma mark_as_notified_sets:
  "r \<in> set (mark_as_notified url name db) \<Longrightarrow> matches url name r \<Longrightarrow> notified r"
  unfolding mark_as_notified_def by (auto simp: matches_mark split: if_splits)

text \<open>
  Claim C6. \<open>mark_as_notified\<close> is idempotent: a second call on the same key changes
  nothing, and after a call every row with that key has \<open>notified\<close> set.
\<close>

theorem mark_as_notified_idempotent:
  "mark_as_notified url name (mark_as_notified url name db) = mark_as_notified url name db
   \<and> (\<forall>r \<in> set (mark_as_notified url name db). matches url name r \<longrightarrow> notified r)"
  using mark_as_notified_twice mark_as_notified_sets by blast

lemma mark_example:
  "mark_as_notified ''c1'' ''Assignment 1'' [ex_row, ex_other]
   = [ex_row\<lparr>notified := True\<rparr>, ex_other]"
  by (simp add: mark_as_notified_def matches_def ex_row_def ex_other_def)

theorem mark_as_notified_idempotent_witness:
  "mark_as_notified ''c1'' ''Assignment 1'' (mark_as_notified ''c1'' ''Assignment 1'' [ex_row, ex_other])
     = [ex_row\<lparr>notified := True\<rparr>, ex_other]
   \<and> matches ''c1'' ''Assignment 1'' (ex_row\<lparr>notified := True\<rparr>)
   \<and> notified (ex_row\<lparr>notified := True\<rparr>)"
proof -
  have a: "matches ''c1'' ''Assignment 1'' (ex_row\<lparr>notified := True\<rparr>)"
    by (simp add: matches_def ex_row_def)
  have b: "notified (ex_row\<lparr>notified := True\<rparr>)"
    by simp
  from mark_as_notified_idempotent [of "''c1''" "''Assignment 1''" "[ex_row, ex_other]"]
  have "mark_as_notified ''c1'' ''Assignment 1''
          (mark_as_notified ''c1'' ''Assignment 1'' [ex_row, ex_other])
        = mark_as_notified ''c1'' ''Assignment 1'' [ex_row, ex_other]"
    by (rule conjunct1)
  with a b show ?thesis
    by (simp only: mark_example simp_thms)
qed

section \<open>The upsert\<close>

lemma find_matches_None:
  "find (matches url name) db = None \<longleftrightarrow> (url, name) \<notin> row_key ` set db"
  by (induction db) (auto simp: matches_def row_key_def)


lemma sql_update_length: "length (sql_update ts url name raw parsed db) = length db"
  by (simp add: sql_update_def)

lemma sql_update_keys: "map row_key (sql_update ts url name raw parsed db) = map row_key db"
  unfolding sql_update_def by (induction db) (simp_all add: row_key_def)

lemma sql_update_ids: "map row_id (sql_update ts url name raw parsed db) = map row_id db"
  unfolding sql_update_def by (induction db) simp_all

lemma sql_update_notified: "map notified (sql_update ts url name raw parsed db) = map notified db"
  unfolding sql_update_def by (induction db) simp_all

lemma sql_update_nth:
  "i < length db \<Longrightarrow>
   sql_update ts url name raw parsed db ! i =
     (if matches url name (db ! i)
      then (db ! i)\<lparr>due_date_raw := raw, due_date_parsed := parsed, extracted_at := ts\<rparr>
      else db ! i)"
  by (simp add: sql_update_def)

lemma sql_update_fields:
  "r \<in> set (sql_update ts url name raw parsed db) \<Longrightarrow> matches url name r \<Longrightarrow>
   due_date_raw r = raw \<and> due_date_parsed r = parsed \<and> extracted_at r = ts"
proof -
  assume "r \<in> set (sql_update ts url name raw parsed db)" and m: "matches url name r"
  then obtain x where
    r: "r = (if matches url name x
             then x\<lparr>due_date_raw := raw, due_date_parsed := parsed, extracted_at := ts\<rparr>
             else x)"
    unfolding sql_update_def set_map by blast
  show ?thesis
  proof (cases "matches url name x")
    case True
    with r have "r = x\<lparr>due_date_raw := raw, due_date_parsed := parsed, extracted_at := ts\<rparr>"
      by simp
    then show ?thesis by simp
  next
    case False
    with r m show ?thesis by simp
  qed
qed

lemma fresh_row_key: "row_key (fresh_row ts url name raw parsed db) = (url, name)"
  by (simp add: fresh_row_def row_key_def)

text \<open>The two ways the loop body ends; it never ends in an error.\<close>

lemma store_one_present:
  "(url, candidate_title a) \<in> row_key ` set (snd acc) \<Longrightarrow>
   store_one dateparser ts url acc a =
     Inr ((fst acc)\<lparr>updated := updated (fst acc) + 1, total := total (fst acc) + 1\<rparr>,
          sql_update ts url (candidate_title a) (candidate_due a)
            (parse_due_date dateparser (candidate_due a)) (snd acc))"
proof -
  assume "(url, candidate_title a) \<in> row_key ` set (snd acc)"
  then have "find (matches url (candidate_title a)) (snd acc) \<noteq> None"
    by (simp add: find_matches_None)
  then obtain e where "find (matches url (candidate_title a)) (snd acc) = Some e"
    by blast
  then show ?thesis
    by (simp add: store_one_def select_existing_def Let_def)
qed

lemma store_one_absent:
  "(url, candidate_title a) \<notin> row_key ` set (snd acc) \<Longrightarrow>
   store_one dateparser ts url acc a =
     Inr ((fst acc)\<lparr>new := new (fst acc) + 1, total := total (fst acc) + 1\<rparr>,
          snd acc @ [fresh_row ts url (candidate_title a) (candidate_due a)
            (parse_due_date dateparser (candidate_due a)) (snd acc)])"
proof -
  assume "(url, candidate_title a) \<notin> row_key ` set (snd acc)"
  then have "find (matches url (candidate_title a)) (snd acc) = None"
    by (simp add: find_matches_None)
  then show ?thesis
    by (simp add: store_one_def select_existing_def sql_insert_def Let_def)
qed

lemma store_one_total: "\<exists>acc'. store_one dateparser ts url acc a = Inr acc'"
  using store_one_present store_one_absent by blast

lemma store_one_counts:
  assumes "store_one dateparser ts url acc a = Inr acc'"
  shows "new (fst acc') + updated (fst acc') = Suc (new (fst acc) + updated (fst acc))
         \<and> total (fst acc') = Suc (total (fst acc))"
proof (cases "(url, candidate_title a) \<in> row_key ` set (snd acc)")
  case True
  from store_one_present [OF True] assms show ?thesis by auto
next
  case False
  from store_one_absent [OF False] assms show ?thesis by auto
qed

lemma store_one_keys:
  assumes "store_one dateparser ts url acc a = Inr acc'"
  shows "row_key ` set (snd acc') = insert (url, candidate_title a) (row_key ` set (snd acc))"
proof (cases "(url, candidate_title a) \<in> row_key ` set (snd acc)")
  case True
  from store_one_present [OF True, of dateparser ts] assms
  have "snd acc' = sql_update ts url (candidate_title a) (candidate_due a)
          (parse_due_date dateparser (candidate_due a)) (snd acc)"
    by simp
  then have "map row_key (snd acc') = map row_key (snd acc)"
    by (simp only: sql_update_keys)
  then have "set (map row_key (snd acc')) = set (map row_key (snd acc))"
    by (rule arg_cong)
  then have "row_key ` set (snd acc') = row_key ` set (snd acc)"
    by (simp only: set_map)
  with True show ?thesis
    by (simp only: insert_absorb)
next
  case False
  from store_one_absent [OF False, of dateparser ts] assms
  have "snd acc' = snd acc @ [fresh_row ts url (candidate_title a) (candidate_due a)
          (parse_due_date dateparser (candidate_due a)) (snd acc)]"
    by simp
  then show ?thesis
    by (simp add: fresh_row_key)
qed

lemma store_one_unique:
  assumes "store_one dateparser ts url acc a = Inr acc'" and "unique_keys (snd acc)"
  shows "unique_keys (snd acc')"
proof (cases "(url, candidate_title a) \<in> row_key ` set (snd acc)")
  case True
  from store_one_present [OF True] assms show ?thesis
    by (auto simp: unique_keys_def sql_update_keys)
next
  case False
  from store_one_absent [OF False] assms False show ?thesis
    by (auto simp: unique_keys_def fresh_row_key)
qed

lemma store_one_again:
  assumes "store_one dateparser ts url acc a = Inr acc'"
    and "(url, candidate_title a) \<in> row_key ` set (snd acc)"
  shows "new (fst acc') = new (fst acc) \<and> map notified (snd acc') = map notified (snd acc)
         \<and> map row_key (snd acc') = map row_key (snd acc)
         \<and> map row_id (snd acc') = map row_id (snd acc)"
  using store_one_present [OF assms(2)] assms(1)
  by (auto simp: sql_update_keys sql_update_notified sql_update_ids)

lemma store_loop_total: "\<exists>acc'. store_loop dateparser ts url cands acc = Inr acc'"
proof (induction cands arbitrary: acc)
  case Nil
  show ?case by simp
next
  case (Cons a cands)
  obtain acc1 where "store_one dateparser ts url acc a = Inr acc1"
    using store_one_total by blast
  with Cons.IH [of acc1] show ?case by simp
qed

lemma store_loop_Cons:
  "store_loop dateparser ts url (a # cands) acc = Inr acc' \<Longrightarrow>
   \<exists>acc1. store_one dateparser ts url acc a = Inr acc1
          \<and> store_loop dateparser ts url cands acc1 = Inr acc'"
  by (auto split: sum.splits)

lemma store_loop_counts:
  "store_loop dateparser ts url cands acc = Inr acc' \<Longrightarrow>
   new (fst acc') + updated (fst acc') = new (fst acc) + updated (fst acc) + length cands
   \<and> total (fst acc') = total (fst acc) + length cands"
proof (induction cands arbitrary: acc)
  case Nil
  then show ?case by simp
next
  case (Cons a cands)
  from store_loop_Cons [OF Cons.prems] obtain acc1
    where one: "store_one dateparser ts url acc a = Inr acc1"
      and rest: "store_loop dateparser ts url cands acc1 = Inr acc'"
    by blast
  from Cons.IH [OF rest] store_one_counts [OF one] show ?case by simp
qed

lemma store_loop_keys:
  "store_loop dateparser ts url cands acc = Inr acc' \<Longrightarrow>
   row_key ` set (snd acc') =
     row_key ` set (snd acc) \<union> (\<lambda>a. (url, candidate_title a)) ` set cands"
proof (induction cands arbitrary: acc)
  case Nil
  then show ?case by simp
next
  case (Cons a cands)
  from store_loop_Cons [OF Cons.prems] obtain acc1
    where one: "store_one dateparser ts url acc a = Inr acc1"
      and rest: "store_loop dateparser ts url cands acc1 = Inr acc'"
    by blast
  from Cons.IH [OF rest] store_one_keys [OF one] show ?case by auto
qed

lemma store_loop_unique:
  "store_loop dateparser ts url cands acc = Inr acc' \<Longrightarrow> unique_keys (snd acc)
   \<Longrightarrow> unique_keys (snd acc')"
proof (induction cands arbitrary: acc)
  case Nil
  then show ?case by simp
next
  case (Cons a cands)
  from store_loop_Cons [OF Cons.prems(1)] obtain acc1
    where one: "store_one dateparser ts url acc a = Inr acc1"
      and rest: "store_loop dateparser ts url cands acc1 = Inr acc'"
    by blast
  from Cons.IH [OF rest store_one_unique [OF one Cons.prems(2)]] show ?case .
qed

lemma store_loop_again:
  "store_loop dateparser ts url cands acc = Inr acc' \<Longrightarrow>
   (\<lambda>a. (url, candidate_title a)) ` set cands \<subseteq> row_key ` set (snd acc) \<Longrightarrow>
   new (fst acc') = new (fst acc) \<and> map notified (snd acc') = map notified (snd acc)
   \<and> map row_key (snd acc') = map row_key (snd acc)
   \<and> map row_id (snd acc') = map row_id (snd acc)"
proof (induction cands arbitrary: acc)
  case Nil
  then show ?case by simp
next
  case (Cons a cands)
  from store_loop_Cons [OF Cons.prems(1)] obtain acc1
    where one: "store_one dateparser ts url acc a = Inr acc1"
      and rest: "store_loop dateparser ts url cands acc1 = Inr acc'"
    by blast
  from Cons.prems(2) have here: "(url, candidate_title a) \<in> row_key ` set (snd acc)"
    by simp
  note step = store_one_again [OF one here]
  from step have "row_key ` set (snd acc1) = row_key ` set (snd acc)"
    by (metis list.set_map)
  with Cons.prems(2)
  have "(\<lambda>a. (url, candidate_title a)) ` set cands \<subseteq> row_key ` set (snd acc1)"
    by simp
  from Cons.IH [OF rest this] step show ?case by simp
qed

text \<open>
  Claim C3. The upsert is idempotent: a second \<open>store_assignments\<close> with the same
  course and candidates, right after the first, counts no new row, and leaves every
  row's \<open>notified\<close> flag (and the rows' identities) as the first call left them.
  Neither call fails.
\<close>

theorem store_assignments_idempotent:
  "\<exists>st1 db1 st2 db2.
     store_assignments dateparser ts1 url cands db = Inr (st1, db1)
     \<and> store_assignments dateparser ts2 url cands db1 = Inr (st2, db2)
     \<and> new st2 = 0
     \<and> map notified db2 = map notified db1
     \<and> map row_key db2 = map row_key db1
     \<and> map row_id db2 = map row_id db1"
proof -
  obtain st1 db1 where first: "store_assignments dateparser ts1 url cands db = Inr (st1, db1)"
    using store_loop_total [of dateparser ts1 url cands] unfolding store_assignments_def
    by (metis surj_pair)
  obtain st2 db2 where second: "store_assignments dateparser ts2 url cands db1 = Inr (st2, db2)"
    using store_loop_total [of dateparser ts2 url cands] unfolding store_assignments_def
    by (metis surj_pair)
  from first have "(\<lambda>a. (url, candidate_title a)) ` set cands \<subseteq> row_key ` set db1"
    unfolding store_assignments_def using store_loop_keys by fastforce
  with second have "new st2 = 0 \<and> map notified db2 = map notified db1
      \<and> map row_key db2 = map row_key db1 \<and> map row_id db2 = map row_id db1"
    unfolding store_assignments_def using store_loop_again by fastforce
  with first second show ?thesis by blast
qed

lemma store_assignments_total:
  "\<exists>st db'. store_assignments dateparser ts url cands db = Inr (st, db')"
  unfolding store_assignments_def
  using store_loop_total [of dateparser ts url cands] by (metis surj_pair)

lemma store_assignments_unique:
  "store_assignments dateparser ts url cands db = Inr (st, db') \<Longrightarrow> unique_keys db
   \<Longrightarrow> unique_keys db'"
  unfolding store_assignments_def
  using store_loop_unique [of dateparser ts url cands _ "(st, db')"] by simp

lemma mark_as_notified_keys: "map row_key (mark_as_notified url name db) = map row_key db"
  unfolding mark_as_notified_def by (induction db) (simp_all add: row_key_def)

lemma reachable_unique: "reachable db \<Longrightarrow> unique_keys db"
proof (induction rule: reachable.induct)
  case init
  show ?case by (simp add: unique_keys_def)
next
  case (store db dateparser ts url cands st db')
  from store_assignments_unique [OF store.hyps(2) store.IH] show ?case .
next
  case (mark db url name)
  then show ?case by (simp add: unique_keys_def mark_as_notified_keys)
qed

lemma select_existing_present:
  "select_existing url name db \<noteq> None \<longleftrightarrow> (url, name) \<in> row_key ` set db"
  by (simp add: select_existing_def find_matches_None)

subsection \<open>Concrete runs\<close>

lemma ex_cand_fields:
  "candidate_title ex_cand = ''Assignment 1''"
  "candidate_due ex_cand = ''Due: Tuesday, 19 August 2025, 12:00 AM''"
  "candidate_title ex_cand_re = ''Assignment 1''"
  "candidate_due ex_cand_re = ''No due date found''"
  "candidate_title ex_cand_mid = ''Week 1 Assignment''"
  "candidate_due ex_cand_mid = ''No due date found''"
  "dict_get ex_cand_mid ''title'' [] = ''Week 1 Title: Assignment''"
  by code_simp+

lemma ex_parse: "parse_due_date None ''Due: Tuesday, 19 August 2025, 12:00 AM'' = Some ex_due"
  by (simp add: parse_due_date_cleaned)

lemma ex_fresh:
  "fresh_row ex_ts ''c1'' ''Assignment 1'' ''Due: Tuesday, 19 August 2025, 12:00 AM''
     (Some ex_due) [] = ex_row"
  "fresh_row ex_ts ''c1'' ''Week 1 Assignment'' ''No due date found'' None [] = ex_row_mid"
  by (simp_all add: fresh_row_def ex_row_def ex_row_mid_def next_id_def)

lemma ex_store_first:
  "store_assignments None ex_ts ''c1'' [ex_cand] [] =
     Inr (\<lparr>new = 1, updated = 0, total = 1\<rparr>, [ex_row])"
proof -
  have "(''c1'', candidate_title ex_cand) \<notin> row_key ` set (snd (stats0, []))"
    by simp
  from store_one_absent [OF this, of None ex_ts]
  have "store_one None ex_ts ''c1'' (stats0, []) ex_cand =
          Inr (\<lparr>new = 1, updated = 0, total = 1\<rparr>, [ex_row])"
    by (simp add: ex_cand_fields ex_parse ex_fresh parse_due_date_sentinel stats0_def)
  then show ?thesis
    by (simp add: store_assignments_def stats0_def)
qed

lemma ex_store_mid:
  "store_assignments None ex_ts ''c1'' [ex_cand_mid] [] =
     Inr (\<lparr>new = 1, updated = 0, total = 1\<rparr>, [ex_row_mid])"
proof -
  have "(''c1'', candidate_title ex_cand_mid) \<notin> row_key ` set (snd (stats0, []))"
    by simp
  from store_one_absent [OF this, of None ex_ts]
  have "store_one None ex_ts ''c1'' (stats0, []) ex_cand_mid =
          Inr (\<lparr>new = 1, updated = 0, total = 1\<rparr>, [ex_row_mid])"
    by (simp add: ex_cand_fields ex_fresh parse_due_date_sentinel stats0_def)
  then show ?thesis
    by (simp add: store_assignments_def stats0_def)
qed

lemma ex_row_key: "row_key ex_row = (''c1'', ''Assignment 1'')"
  by (simp add: row_key_def ex_row_def)

lemma ex_update:
  "sql_update ex_ts2 ''c1'' ''Assignment 1'' ''No due date found'' None [ex_row] = [ex_row_re]"
  "sql_update ex_ts2 ''c1'' ''Assignment 1'' ''No due date found'' None
     [ex_row\<lparr>notified := True\<rparr>, ex_other] = [ex_row_re\<lparr>notified := True\<rparr>, ex_other]"
  by (simp_all add: sql_update_def matches_def ex_row_def ex_row_re_def ex_other_def)

lemma ex_store_one_again:
  "store_one None ex_ts2 ''c1'' (stats0, [ex_row]) ex_cand_re =
     Inr (\<lparr>new = 0, updated = 1, total = 1\<rparr>, [ex_row_re])"
proof -
  have "(''c1'', candidate_title ex_cand_re) \<in> row_key ` set (snd (stats0, [ex_row]))"
    by (simp add: ex_cand_fields ex_row_key)
  from store_one_present [OF this, of None ex_ts2] show ?thesis
    by (simp add: ex_cand_fields ex_update parse_due_date_sentinel stats0_def)
qed

lemma ex_store_again:
  "store_assignments None ex_ts2 ''c1'' [ex_cand_re] [ex_row] =
     Inr (\<lparr>new = 0, updated = 1, total = 1\<rparr>, [ex_row_re])"
  using ex_store_one_again by (simp add: store_assignments_def stats0_def)

lemma ex_store_one_frame:
  "store_one None ex_ts2 ''c1'' (stats0, [ex_row\<lparr>notified := True\<rparr>, ex_other]) ex_cand_re =
     Inr (\<lparr>new = 0, updated = 1, total = 1\<rparr>, [ex_row_re\<lparr>notified := True\<rparr>, ex_other])"
proof -
  have "(''c1'', candidate_title ex_cand_re)
          \<in> row_key ` set (snd (stats0, [ex_row\<lparr>notified := True\<rparr>, ex_other]))"
    by (simp add: ex_cand_fields row_key_def ex_row_def)
  from store_one_present [OF this, of None ex_ts2] show ?thesis
    by (simp add: ex_cand_fields ex_update parse_due_date_sentinel stats0_def)
qed

subsection \<open>The claims about the upsert\<close>

text \<open>
  Claim C5. When \<open>store_assignments\<close> finds a row under the course and title of a
  candidate, the loop body succeeds, keeps the number and order of the rows, and in
  every row keeps the id, the key and \<open>notified\<close>; a row with that key gets the new
  \<open>due_date_raw\<close>, \<open>due_date_parsed\<close> and \<open>extracted_at\<close>, and every other row is
  unchanged.
\<close>

theorem store_one_frame:
  assumes "select_existing url (candidate_title a) db = Some existing"
  shows "\<exists>st' db'.
           store_one dateparser ts url (st, db) a = Inr (st', db')
           \<and> length db' = length db
           \<and> (\<forall>i < length db.
                 row_id (db' ! i) = row_id (db ! i)
                 \<and> course_url (db' ! i) = course_url (db ! i)
                 \<and> assignment_name (db' ! i) = assignment_name (db ! i)
                 \<and> notified (db' ! i) = notified (db ! i)
                 \<and> (if matches url (candidate_title a) (db ! i)
                     then due_date_raw (db' ! i) = candidate_due a
                          \<and> due_date_parsed (db' ! i) = parse_due_date dateparser (candidate_due a)
                          \<and> extracted_at (db' ! i) = ts
                     else db' ! i = db ! i))"
proof -
  let ?db' = "sql_update ts url (candidate_title a) (candidate_due a)
                (parse_due_date dateparser (candidate_due a)) db"
  from assms have "(url, candidate_title a) \<in> row_key ` set (snd (st, db))"
    using select_existing_present [of url "candidate_title a" db] by simp
  from store_one_present [OF this, of dateparser ts]
  have run: "store_one dateparser ts url (st, db) a =
               Inr (st\<lparr>updated := updated st + 1, total := total st + 1\<rparr>, ?db')"
    by simp
  have len: "length ?db' = length db"
    by (rule sql_update_length)
  have rows: "\<forall>i < length db.
                 row_id (?db' ! i) = row_id (db ! i)
                 \<and> course_url (?db' ! i) = course_url (db ! i)
                 \<and> assignment_name (?db' ! i) = assignment_name (db ! i)
                 \<and> notified (?db' ! i) = notified (db ! i)
                 \<and> (if matches url (candidate_title a) (db ! i)
                     then due_date_raw (?db' ! i) = candidate_due a
                          \<and> due_date_parsed (?db' ! i) = parse_due_date dateparser (candidate_due a)
                          \<and> extracted_at (?db' ! i) = ts
                     else ?db' ! i = db ! i)"
    by (simp add: sql_update_nth)
  from run len rows show ?thesis by blast
qed

theorem store_one_frame_witness:
  "select_existing ''c1'' (candidate_title ex_cand_re) [ex_row\<lparr>notified := True\<rparr>, ex_other]
     = Some (ex_row\<lparr>notified := True\<rparr>)
   \<and> store_one None ex_ts2 ''c1'' (stats0, [ex_row\<lparr>notified := True\<rparr>, ex_other]) ex_cand_re
     = Inr (\<lparr>new = 0, updated = 1, total = 1\<rparr>, [ex_row_re\<lparr>notified := True\<rparr>, ex_other])
   \<and> notified (ex_row_re\<lparr>notified := True\<rparr>)
   \<and> due_date_raw (ex_row_re\<lparr>notified := True\<rparr>) = ''No due date found''
   \<and> extracted_at (ex_row_re\<lparr>notified := True\<rparr>) = ex_ts2"
proof -
  have h: "select_existing ''c1'' (candidate_title ex_cand_re) [ex_row\<lparr>notified := True\<rparr>, ex_other]
             = Some (ex_row\<lparr>notified := True\<rparr>)"
    by (simp add: select_existing_def matches_def ex_cand_fields ex_row_def)
  from store_one_frame [OF h, of None ex_ts2 stats0] obtain st' db'
    where "store_one None ex_ts2 ''c1'' (stats0, [ex_row\<lparr>notified := True\<rparr>, ex_other]) ex_cand_re
             = Inr (st', db')"
    by blast
  with ex_store_one_frame
  have "(st', db') = (\<lparr>new = 0, updated = 1, total = 1\<rparr>, [ex_row_re\<lparr>notified := True\<rparr>, ex_other])"
    by simp
  with h ex_store_one_frame show ?thesis
    by (simp add: ex_row_re_def)
qed

text \<open>
  Claim C4. No two rows of a reachable store share course and title; every
  \<open>store_assignments\<close> keeps that; and a candidate whose key is already stored
  overwrites \<open>due_date_raw\<close>, \<open>due_date_parsed\<close> and \<open>extracted_at\<close> of its row in
  place: the rows, their ids and their keys stay as they were, so no row is added.
\<close>

theorem unique_identity:
  "(reachable db \<longrightarrow> unique_keys db)
   \<and> (unique_keys db \<and> store_assignments dateparser ts url cands db = Inr (st, db')
        \<longrightarrow> unique_keys db')
   \<and> (select_existing url (candidate_title a) db \<noteq> None \<longrightarrow>
        (\<exists>st1 db1.
           store_one dateparser ts url (st0, db) a = Inr (st1, db1)
           \<and> length db1 = length db
           \<and> map row_id db1 = map row_id db
           \<and> map row_key db1 = map row_key db
           \<and> (\<forall>r \<in> set db1. matches url (candidate_title a) r \<longrightarrow>
                 due_date_raw r = candidate_due a
                 \<and> due_date_parsed r = parse_due_date dateparser (candidate_due a)
                 \<and> extracted_at r = ts)))"
proof (intro conjI impI)
  assume "reachable db"
  then show "unique_keys db" by (rule reachable_unique)
next
  assume "unique_keys db \<and> store_assignments dateparser ts url cands db = Inr (st, db')"
  then show "unique_keys db'"
    using store_assignments_unique by blast
next
  let ?db1 = "sql_update ts url (candidate_title a) (candidate_due a)
                (parse_due_date dateparser (candidate_due a)) db"
  assume "select_existing url (candidate_title a) db \<noteq> None"
  from this [unfolded select_existing_present]
  have "(url, candidate_title a) \<in> row_key ` set (snd (st0, db))"
    by simp
  from store_one_present [OF this, of dateparser ts]
  have run: "store_one dateparser ts url (st0, db) a =
               Inr (st0\<lparr>updated := updated st0 + 1, total := total st0 + 1\<rparr>, ?db1)"
    by simp
  have fields: "\<forall>r \<in> set ?db1. matches url (candidate_title a) r \<longrightarrow>
                  due_date_raw r = candidate_due a
                  \<and> due_date_parsed r = parse_due_date dateparser (candidate_due a)
                  \<and> extracted_at r = ts"
    using sql_update_fields by blast
  from run fields sql_update_length [of ts url "candidate_title a" "candidate_due a"
      "parse_due_date dateparser (candidate_due a)" db]
    sql_update_ids [of ts url "candidate_title a" "candidate_due a"
      "parse_due_date dateparser (candidate_due a)" db]
    sql_update_keys [of ts url "candidate_title a" "candidate_due a"
      "parse_due_date dateparser (candidate_due a)" db]
  show "\<exists>st1 db1.
           store_one dateparser ts url (st0, db) a = Inr (st1, db1)
           \<and> length db1 = length db
           \<and> map row_id db1 = map row_id db
           \<and> map row_key db1 = map row_key db
           \<and> (\<forall>r \<in> set db1. matches url (candidate_title a) r \<longrightarrow>
                 due_date_raw r = candidate_due a
                 \<and> due_date_parsed r = parse_due_date dateparser (candidate_due a)
                 \<and> extracted_at r = ts)"
    by blast
qed

theorem unique_identity_witness:
  "reachable [ex_row] \<and> unique_keys [ex_row]
   \<and> store_assignments None ex_ts2 ''c1'' [ex_cand_re] [ex_row]
       = Inr (\<lparr>new = 0, updated = 1, total = 1\<rparr>, [ex_row_re])
   \<and> unique_keys [ex_row_re]
   \<and> select_existing ''c1'' (candidate_title ex_cand_re) [ex_row] \<noteq> None
   \<and> store_one None ex_ts2 ''c1'' (stats0, [ex_row]) ex_cand_re
       = Inr (\<lparr>new = 0, updated = 1, total = 1\<rparr>, [ex_row_re])
   \<and> map row_id [ex_row_re] = map row_id [ex_row]
   \<and> map row_key [ex_row_re] = map row_key [ex_row]"
proof -
  have r: "reachable [ex_row]"
    using reachable.store [OF reachable.init ex_store_first] .
  note inst = unique_identity [of "[ex_row]" None ex_ts2 "''c1''" "[ex_cand_re]"
      "\<lparr>new = 0, updated = 1, total = 1\<rparr>" "[ex_row_re]" ex_cand_re stats0]
  from inst r have u: "unique_keys [ex_row]"
    by blast
  with inst ex_store_again have u': "unique_keys [ex_row_re]"
    by blast
  have "(''c1'', candidate_title ex_cand_re) \<in> row_key ` set [ex_row]"
    by (simp add: ex_cand_fields ex_row_key)
  then have s: "select_existing ''c1'' (candidate_title ex_cand_re) [ex_row] \<noteq> None"
    by (simp only: select_existing_present)
  from inst s obtain st1 db1 where
    "store_one None ex_ts2 ''c1'' (stats0, [ex_row]) ex_cand_re = Inr (st1, db1)"
    "map row_id db1 = map row_id [ex_row]" "map row_key db1 = map row_key [ex_row]"
    by blast
  with ex_store_one_again have "map row_id [ex_row_re] = map row_id [ex_row]"
      "map row_key [ex_row_re] = map row_key [ex_row]"
    by simp_all
  with r u u' s ex_store_again ex_store_one_again show ?thesis
    by blast
qed

text \<open>The title stored: every occurrence of \<open>"Title: "\<close> is removed, not only a prefix.\<close>

lemma replace_absent:
  "old \<noteq> [] \<Longrightarrow> \<not> sublist old s \<Longrightarrow> replace old rep s = s"
proof (induction old rep s rule: replace.induct)
  case (1 old rep s)
  show ?case
  proof (cases "s = []")
    case True
    with "1.prems" show ?thesis by (subst replace.simps) simp
  next
    case False
    from "1.prems"(2) have np: "\<not> prefix old s"
      using prefix_imp_sublist by blast
    from False obtain c cs where s: "s = c # cs"
      by (cases s) auto
    with "1.prems"(2) have "\<not> sublist old (tl s)"
      by (auto simp: sublist_Cons_right)
    with "1.IH"(2) [OF "1.prems"(1) False np "1.prems"(1)]
    have "replace old rep (tl s) = tl s" .
    with False np "1.prems"(1) s show ?thesis
      by (subst replace.simps) simp
  qed
qed

lemma replace_prefix_only:
  "old \<noteq> [] \<Longrightarrow> \<not> sublist old rest \<Longrightarrow> replace old [] (old @ rest) = rest"
  using replace_absent [of old rest "[]"] by (subst replace.simps) simp

text \<open>
  Claim C10, as the program has it. A call of \<open>store_assignments\<close> on \<open>n\<close> candidates
  succeeds with \<open>new + updated = total = n\<close>, and the keys of the store afterwards are
  the keys before and, for each candidate, the course with the candidate title from
  which every occurrence of \<open>"Title: "\<close> has been removed. That is the title without
  its prefix \<open>"Title: "\<close> whenever the rest of the title holds no further occurrence.
\<close>

theorem store_assignments_stats:
  "\<exists>st db'.
     store_assignments dateparser ts url cands db = Inr (st, db')
     \<and> new st + updated st = total st
     \<and> total st = length cands
     \<and> row_key ` set db' =
         row_key ` set db \<union> (\<lambda>a. (url, replace ''Title: '' [] (dict_get a ''title'' []))) ` set cands
     \<and> (\<forall>a \<in> set cands. \<forall>rest.
           dict_get a ''title'' [] = ''Title: '' @ rest \<and> \<not> contains rest ''Title: ''
           \<longrightarrow> candidate_title a = rest \<and> candidate_title a = title_without_prefix (dict_get a ''title'' []))"
proof -
  obtain st db' where run: "store_assignments dateparser ts url cands db = Inr (st, db')"
    using store_assignments_total by blast
  then have loop: "store_loop dateparser ts url cands (\<lparr>new = 0, updated = 0, total = 0\<rparr>, db)
                     = Inr (st, db')"
    by (simp add: store_assignments_def)
  from store_loop_counts [OF loop] have counts: "new st + updated st = total st" "total st = length cands"
    by simp_all
  from store_loop_keys [OF loop]
  have keys: "row_key ` set db' =
         row_key ` set db \<union> (\<lambda>a. (url, replace ''Title: '' [] (dict_get a ''title'' []))) ` set cands"
    by (simp add: candidate_title_def)
  have pre: "\<forall>a \<in> set cands. \<forall>rest.
           dict_get a ''title'' [] = ''Title: '' @ rest \<and> \<not> contains rest ''Title: ''
           \<longrightarrow> candidate_title a = rest \<and> candidate_title a = title_without_prefix (dict_get a ''title'' [])"
  proof (intro ballI allI impI)
    fix a rest
    assume h: "dict_get a ''title'' [] = ''Title: '' @ rest \<and> \<not> contains rest ''Title: ''"
    then have "\<not> sublist ''Title: '' rest"
      by (simp add: contains_def)
    then have "replace ''Title: '' [] (''Title: '' @ rest) = rest"
      by (intro replace_prefix_only) simp_all
    with h have c: "candidate_title a = rest"
      by (simp add: candidate_title_def)
    have "title_without_prefix (''Title: '' @ rest) = rest"
      unfolding title_without_prefix_def by simp
    with c h show "candidate_title a = rest
        \<and> candidate_title a = title_without_prefix (dict_get a ''title'' [])"
      by simp
  qed
  from run counts keys pre show ?thesis by blast
qed

theorem store_assignments_stats_witness:
  "store_assignments None ex_ts ''c1'' [ex_cand] [] = Inr (\<lparr>new = 1, updated = 0, total = 1\<rparr>, [ex_row])
   \<and> row_key ` set [ex_row] = {(''c1'', ''Assignment 1'')}
   \<and> dict_get ex_cand ''title'' [] = ''Title: '' @ ''Assignment 1''
   \<and> \<not> contains ''Assignment 1'' ''Title: ''
   \<and> candidate_title ex_cand = ''Assignment 1''
   \<and> title_without_prefix (dict_get ex_cand ''title'' []) = ''Assignment 1''"
proof -
  have d: "dict_get ex_cand ''title'' [] = ''Title: '' @ ''Assignment 1''"
    by code_simp
  have n: "\<not> contains ''Assignment 1'' ''Title: ''"
    by code_simp
  have m: "ex_cand \<in> set [ex_cand]"
    by simp
  from store_assignments_stats [of None ex_ts "''c1''" "[ex_cand]" "[]"] obtain st db' where
    pre: "\<forall>a \<in> set [ex_cand]. \<forall>rest.
           dict_get a ''title'' [] = ''Title: '' @ rest \<and> \<not> contains rest ''Title: ''
           \<longrightarrow> candidate_title a = rest \<and> candidate_title a = title_without_prefix (dict_get a ''title'' [])"
    by blast
  from spec [OF bspec [OF pre m], of "''Assignment 1''"] d n
  have t1: "candidate_title ex_cand = ''Assignment 1''"
    and t2: "candidate_title ex_cand = title_without_prefix (dict_get ex_cand ''title'' [])"
    by blast+
  have t3: "title_without_prefix (dict_get ex_cand ''title'' []) = ''Assignment 1''"
    by (rule trans [OF t2 [symmetric] t1])
  have k: "row_key ` set [ex_row] = {(''c1'', ''Assignment 1'')}"
    by (simp add: ex_row_key)
  from ex_store_first k d n t1 t3 show ?thesis
    by blast
qed

text \<open>
  The claim as it was worded fails: the candidate title \<open>"Week 1 Title: Assignment"\<close>
  has no prefix \<open>"Title: "\<close>, yet the row is stored under \<open>"Week 1 Assignment"\<close>.
\<close>

theorem title_prefix_counterexample:
  "store_assignments None ex_ts ''c1'' [ex_cand_mid] []
     = Inr (\<lparr>new = 1, updated = 0, total = 1\<rparr>, [ex_row_mid])
   \<and> assignment_name ex_row_mid = ''Week 1 Assignment''
   \<and> title_without_prefix (dict_get ex_cand_mid ''title'' []) = ''Week 1 Title: Assignment''
   \<and> candidate_title ex_cand_mid \<noteq> title_without_prefix (dict_get ex_cand_mid ''title'' [])"
proof -
  have "title_without_prefix ''Week 1 Title: Assignment'' = ''Week 1 Title: Assignment''"
    by code_simp
  then show ?thesis
    by (simp add: ex_store_mid ex_cand_fields ex_row_mid_def)
qed

section \<open>The deadline scan\<close>




















subsection \<open>Concrete clocks\<close>






subsection \<open>The claims about the scan\<close>






end
